theory Spec2Isabelle
  imports Complex_Main
begin

section \<open>BAC calculator (src/bac\_calculator.py)\<close>

text \<open>
  Python floats are read as real numbers: every constant of the source is the rational
  number its decimal literal denotes, and \<open>+\<close>, \<open>*\<close>, \<open>/\<close> are exact. The one
  exception the source can raise in the modelled functions, a float division by zero,
  is a value of the result type.
\<close>

datatype error = ZeroDivisionError

subsection \<open>Constants set in \<open>BACCalculator.__init__\<close>\<close>

definition male_widmark_factor :: real where
  "male_widmark_factor = 0.68"

definition female_widmark_factor :: real where
  "female_widmark_factor = 0.55"

definition metabolism_rate :: real where
  "metabolism_rate = 0.015"

text \<open>A drink is the dict with the keys \<open>alcohol_percent\<close> and \<open>volume_oz\<close>.\<close>

record drink =
  alcohol_percent :: real
  volume_oz :: real

definition drink_database :: "string \<rightharpoonup> drink" where
  "drink_database = map_of
     [(''beer'', \<lparr>alcohol_percent = 5.0, volume_oz = 12.0\<rparr>),
      (''wine'', \<lparr>alcohol_percent = 12.0, volume_oz = 5.0\<rparr>),
      (''liquor'', \<lparr>alcohol_percent = 40.0, volume_oz = 1.5\<rparr>),
      (''cocktail'', \<lparr>alcohol_percent = 15.0, volume_oz = 8.0\<rparr>)]"

subsection \<open>\<open>str.lower\<close> on the ASCII letters\<close>

definition lower_char :: "char \<Rightarrow> char" where
  "lower_char c =
     (if 65 \<le> (of_char c :: nat) \<and> (of_char c :: nat) \<le> 90
      then char_of ((of_char c :: nat) + 32) else c)"

definition lower :: "string \<Rightarrow> string" where
  "lower s = map lower_char s"

subsection \<open>\<open>calculate_bac_widmark\<close>\<close>

text \<open>The body of the \<open>for drink in drinks\<close> loop: the grams of ethanol of one drink.\<close>

definition alcohol_grams :: "'a drink_scheme \<Rightarrow> real" where
  "alcohol_grams d =
     (let volume_ml = volume_oz d * 29.5735;
          alcohol_ml = volume_ml * (alcohol_percent d / 100)
      in alcohol_ml * 0.789)"

text \<open>The loop itself, with \<open>total_alcohol_grams\<close> as the accumulator.\<close>

fun total_alcohol_loop :: "real \<Rightarrow> 'a drink_scheme list \<Rightarrow> real" where
  "total_alcohol_loop total_alcohol_grams [] = total_alcohol_grams"
| "total_alcohol_loop total_alcohol_grams (d # ds) =
     total_alcohol_loop (total_alcohol_grams + alcohol_grams d) ds"

definition calculate_bac_widmark ::
    "real \<Rightarrow> string \<Rightarrow> 'a drink_scheme list \<Rightarrow> real \<Rightarrow> error + real" where
  "calculate_bac_widmark weight_lbs gender drinks hours_since_first_drink =
     (let weight_grams = weight_lbs * 453.592;
          total_alcohol_grams = total_alcohol_loop 0 drinks;
          widmark_factor = (if lower gender = ''male'' then male_widmark_factor
                            else female_widmark_factor)
      in if widmark_factor * weight_grams = 0 then Inl ZeroDivisionError
         else
           let peak_bac = (total_alcohol_grams / (widmark_factor * weight_grams)) * 100;
               bac = (if hours_since_first_drink \<le> 0.5
                      then peak_bac * (hours_since_first_drink / 0.5)
                      else let time_since_peak = hours_since_first_drink - 0.5
                           in peak_bac - (metabolism_rate * time_since_peak))
           in Inr (max 0 bac))"

subsection \<open>\<open>get_bac_effects\<close> and \<open>calculate_sober_time\<close>\<close>

record bac_effects =
  level :: string
  effects :: string
  recommendation :: string
  color :: string

definition get_bac_effects :: "real \<Rightarrow> bac_effects" where
  "get_bac_effects bac =
     (if bac < 0.02 then
        \<lparr>level = ''Sober'',
         effects = ''No significant effects'',
         recommendation = ''Safe to drive'',
         color = ''green''\<rparr>
      else if bac < 0.05 then
        \<lparr>level = ''Mild Impairment'',
         effects = ''Slight euphoria, relaxation, decreased inhibition'',
         recommendation = ''Exercise caution'',
         color = ''yellow''\<rparr>
      else if bac < 0.08 then
        \<lparr>level = ''Moderate Impairment'',
         effects = ''Impaired judgment, reduced coordination, slower reaction time'',
         recommendation = ''Do not drive'',
         color = ''orange''\<rparr>
      else if bac < 0.15 then
        \<lparr>level = ''High Impairment'',
         effects = ''Significant impairment, poor coordination, slurred speech'',
         recommendation = ''Do not drive, seek safe transportation'',
         color = ''red''\<rparr>
      else
        \<lparr>level = ''Severe Impairment'',
         effects = ''Severe impairment, risk of alcohol poisoning'',
         recommendation = ''Seek medical attention if needed'',
         color = ''darkred''\<rparr>)"

definition calculate_sober_time :: "real \<Rightarrow> real" where
  "calculate_sober_time current_bac =
     (if current_bac \<le> 0 then 0
      else let hours_to_sober = current_bac / metabolism_rate in hours_to_sober)"

subsection \<open>\<open>BACCalculator.add_drink\<close>\<close>

text \<open>
  An optional numeric argument is \<open>None\<close> or a number; Python's truth test of it
  (\<open>if volume_oz:\<close>, \<open>volume_oz or 12.0\<close>) holds for a number other than zero.
\<close>

fun truthy :: "real option \<Rightarrow> bool" where
  "truthy None = False"
| "truthy (Some v) = (v \<noteq> 0)"

fun py_or :: "real option \<Rightarrow> real \<Rightarrow> real" where
  "py_or None d = d"
| "py_or (Some v) d = (if v \<noteq> 0 then v else d)"

definition add_drink :: "string \<Rightarrow> real option \<Rightarrow> real option \<Rightarrow> drink" where
  "add_drink drink_type volume_oz_arg alcohol_percent_arg =
     (case drink_database drink_type of
        Some entry \<Rightarrow>
          (let drink_info = entry;
               drink_info = (if truthy volume_oz_arg
                             then drink_info\<lparr>volume_oz := the volume_oz_arg\<rparr>
                             else drink_info);
               drink_info = (if truthy alcohol_percent_arg
                             then drink_info\<lparr>alcohol_percent := the alcohol_percent_arg\<rparr>
                             else drink_info)
           in drink_info)
      | None \<Rightarrow>
          \<lparr>alcohol_percent = py_or alcohol_percent_arg 5.0,
           volume_oz = py_or volume_oz_arg 12.0\<rparr>)"

section \<open>Real-time monitor (src/real\_time\_monitor.py)\<close>

text \<open>
  A \<open>datetime\<close> is a real number of seconds, so that
  \<open>(a - b).total_seconds()\<close> is \<open>a - b\<close>. Every function that reads
  \<open>datetime.now()\<close> takes the reading as its first argument. The thread and the
  lines printed on the console are not part of the state; what a function prints is
  returned next to the state where a property speaks of it.
\<close>

record sensor_simulator =
  baseline_heart_rate :: real
  baseline_skin_conductance :: real
  baseline_temperature :: real
  current_heart_rate :: real
  current_skin_conductance :: real
  current_temperature :: real
  alcohol_effect :: real

text \<open>\<open>SensorSimulator.__init__\<close>\<close>

definition init_sensor_simulator :: sensor_simulator where
  "init_sensor_simulator =
     \<lparr>baseline_heart_rate = 70,
      baseline_skin_conductance = 5.0,
      baseline_temperature = 98.6,
      current_heart_rate = 70,
      current_skin_conductance = 5.0,
      current_temperature = 98.6,
      alcohol_effect = 0.0\<rparr>"

text \<open>The sample the monitoring loop appends to both histories and to the queue.\<close>

record data_point =
  timestamp :: real
  bac :: real
  heart_rate :: real
  skin_conductance :: real
  temperature :: real

text \<open>A drink of the log: the calculator's dict with the key \<open>timestamp\<close> added.\<close>

record logged_drink = drink +
  timestamp :: real

text \<open>The tiers \<open>'warning'\<close>, \<open>'danger'\<close>, \<open>'critical'\<close>; \<open>None\<close> is no tier.\<close>

datatype alert_level = Warning | Danger | Critical

record monitor =
  sensor_simulator :: sensor_simulator
  weight_lbs :: real
  gender :: string
  drinks :: "logged_drink list"
  first_drink_time :: "real option"
  last_drink_time :: "real option"
  current_bac :: real
  bac_history :: "data_point list"
  sensor_history :: "data_point list"
  is_monitoring :: bool
  data_queue :: "data_point list"
  last_alert_level :: "alert_level option"
  last_alert_time :: "real option"
  alert_cooldown :: int

text \<open>
  \<open>alert_thresholds\<close> is filled in \<open>__init__\<close> and never assigned again, so its
  three entries are constants.
\<close>

definition alert_thresholds :: "alert_level \<Rightarrow> real" where
  "alert_thresholds l = (case l of Warning \<Rightarrow> 0.05 | Danger \<Rightarrow> 0.08 | Critical \<Rightarrow> 0.15)"

text \<open>\<open>RealTimeBACMonitor.__init__\<close>\<close>

definition init_monitor :: "real \<Rightarrow> string \<Rightarrow> monitor" where
  "init_monitor w g =
     \<lparr>sensor_simulator = init_sensor_simulator,
      weight_lbs = w,
      gender = g,
      drinks = [],
      first_drink_time = None,
      last_drink_time = None,
      current_bac = 0.0,
      bac_history = [],
      sensor_history = [],
      is_monitoring = False,
      data_queue = [],
      last_alert_level = None,
      last_alert_time = None,
      alert_cooldown = 30\<rparr>"

subsection \<open>\<open>_check_alerts\<close>\<close>

text \<open>What \<open>_send_alert\<close> is called with: the label, and the two parts of the message.\<close>

record alert =
  alert_label :: string
  alert_bac :: real
  alert_recommendation :: string

text \<open>The \<open>if/elif\<close> chain that determines the current alert level.\<close>

definition current_alert_level_of :: "real \<Rightarrow> alert_level option" where
  "current_alert_level_of b =
     (if b \<ge> alert_thresholds Critical then Some Critical
      else if b \<ge> alert_thresholds Danger then Some Danger
      else if b \<ge> alert_thresholds Warning then Some Warning
      else None)"

definition should_alert_of :: "real \<Rightarrow> alert_level option \<Rightarrow> monitor \<Rightarrow> bool" where
  "should_alert_of current_time current_alert_level s =
     (if current_alert_level \<noteq> last_alert_level s then True
      else if current_alert_level \<noteq> None \<and>
              (last_alert_time s = None \<or>
               current_time - the (last_alert_time s) > real_of_int (alert_cooldown s))
      then True
      else False)"

definition send_alert_of :: "alert_level \<Rightarrow> real \<Rightarrow> bac_effects \<Rightarrow> alert" where
  "send_alert_of l b e =
     (case l of
        Critical \<Rightarrow>
          \<lparr>alert_label = ''CRITICAL'', alert_bac = b, alert_recommendation = recommendation e\<rparr>
      | Danger \<Rightarrow>
          \<lparr>alert_label = ''DANGER'', alert_bac = b, alert_recommendation = recommendation e\<rparr>
      | Warning \<Rightarrow>
          \<lparr>alert_label = ''WARNING'', alert_bac = b, alert_recommendation = recommendation e\<rparr>)"

text \<open>
  The result is the alert sent, if any, and the state after the call. The alert state
  is assigned in the same branch that sends the alert.
\<close>

definition check_alerts :: "real \<Rightarrow> monitor \<Rightarrow> alert option \<times> monitor" where
  "check_alerts current_time s =
     (let effects = get_bac_effects (current_bac s);
          current_alert_level = current_alert_level_of (current_bac s);
          should_alert = should_alert_of current_time current_alert_level s
      in if should_alert \<and> current_alert_level \<noteq> None
         then (Some (send_alert_of (the current_alert_level) (current_bac s) effects),
               s\<lparr>last_alert_level := current_alert_level,
                 last_alert_time := Some current_time\<rparr>)
         else (None, s))"

subsection \<open>\<open>get_current_status\<close>, \<open>reset_session\<close>, \<open>check_alerts_manually\<close>, \<open>set_alert_cooldown\<close>\<close>

record sensors =
  heart_rate :: real
  skin_conductance :: real
  temperature :: real

record status =
  bac :: real
  effects :: bac_effects
  sober_time_hours :: real
  sensors :: sensors
  drinks_count :: nat
  time_since_last_drink :: real

definition get_current_status :: "real \<Rightarrow> monitor \<Rightarrow> status" where
  "get_current_status now s =
     (let effects = get_bac_effects (current_bac s);
          sober_time = calculate_sober_time (current_bac s)
      in \<lparr>bac = current_bac s,
          effects = effects,
          sober_time_hours = sober_time,
          sensors =
            \<lparr>heart_rate = current_heart_rate (sensor_simulator s),
             skin_conductance = current_skin_conductance (sensor_simulator s),
             temperature = current_temperature (sensor_simulator s)\<rparr>,
          drinks_count = length (drinks s),
          time_since_last_drink =
            (case last_drink_time s of
               Some t \<Rightarrow> (now - t) / 60
             | None \<Rightarrow> 0)\<rparr>)"

definition reset_session :: "monitor \<Rightarrow> monitor" where
  "reset_session s =
     s\<lparr>drinks := [],
       first_drink_time := None,
       last_drink_time := None,
       current_bac := 0.0,
       bac_history := [],
       sensor_history := [],
       last_alert_level := None,
       last_alert_time := None\<rparr>"

text \<open>
  \<open>check_alerts_manually\<close> prints one line and assigns nothing. The line is its
  marker (critical, danger, warning or safe), the BAC, and the text that follows it.
\<close>

datatype manual_line =
    CriticalAlertLine real string
  | DangerAlertLine real string
  | WarningLine real string
  | SafeLine real string

definition check_alerts_manually :: "monitor \<Rightarrow> manual_line \<times> monitor" where
  "check_alerts_manually s =
     (let e = get_bac_effects (current_bac s)
      in (if current_bac s \<ge> alert_thresholds Critical
            then CriticalAlertLine (current_bac s) (recommendation e)
          else if current_bac s \<ge> alert_thresholds Danger
            then DangerAlertLine (current_bac s) (recommendation e)
          else if current_bac s \<ge> alert_thresholds Warning
            then WarningLine (current_bac s) (recommendation e)
          else SafeLine (current_bac s) (bac_effects.effects e),
          s))"

definition set_alert_cooldown :: "int \<Rightarrow> monitor \<Rightarrow> monitor" where
  "set_alert_cooldown seconds s = s\<lparr>alert_cooldown := seconds\<rparr>"

section \<open>Auxiliary definitions\<close>

subsection \<open>The local \<open>peak_bac\<close> of \<open>calculate_bac_widmark\<close>\<close>

definition peak_bac_of :: "real \<Rightarrow> string \<Rightarrow> 'a drink_scheme list \<Rightarrow> real" where
  "peak_bac_of w g ds =
     total_alcohol_loop 0 ds /
       ((if lower g = ''male'' then male_widmark_factor else female_widmark_factor) *
        (w * 453.592)) * 100"

subsection \<open>The Widmark estimator as the specification words it\<close>

text \<open>
  These four definitions follow the specification, not the source: the total grams are
  a sum over the drink list, the ratio is chosen by the sex of the profile, and the
  two-phase curve is clamped below at zero.
\<close>

definition spec_total_grams :: "'a drink_scheme list \<Rightarrow> real" where
  "spec_total_grams ds =
     (\<Sum>d\<leftarrow>ds. volume_oz d * 29.5735 * (alcohol_percent d / 100) * 0.789)"

definition spec_ratio :: "string \<Rightarrow> real" where
  "spec_ratio sex = (if sex = ''male'' then 0.68 else 0.55)"

definition spec_peak_bac :: "real \<Rightarrow> string \<Rightarrow> 'a drink_scheme list \<Rightarrow> real" where
  "spec_peak_bac weightLbs sex ds =
     (spec_total_grams ds / (spec_ratio sex * weightLbs * 453.592)) * 100"

definition spec_widmark :: "real \<Rightarrow> string \<Rightarrow> 'a drink_scheme list \<Rightarrow> real \<Rightarrow> real" where
  "spec_widmark weightLbs sex ds elapsedHours =
     max 0 (if elapsedHours \<le> 0.5
            then spec_peak_bac weightLbs sex ds * (elapsedHours / 0.5)
            else spec_peak_bac weightLbs sex ds - 0.015 * (elapsedHours - 0.5))"

subsection \<open>Concrete inputs\<close>

definition one_beer :: "drink list" where
  "one_beer = [\<lparr>alcohol_percent = 5.0, volume_oz = 12.0\<rparr>]"

definition no_drinks :: "drink list" where
  "no_drinks = []"

text \<open>A fresh monitor, as \<open>RealTimeBACMonitor(150, 'female')\<close> builds it.\<close>

definition fresh_monitor :: monitor where
  "fresh_monitor = init_monitor 150 ''female''"

text \<open>The monitor after a warning alert at time 0, with the BAC back at 0.\<close>

definition after_warning :: monitor where
  "after_warning =
     fresh_monitor\<lparr>last_alert_level := Some Warning, last_alert_time := Some 0\<rparr>"

text \<open>The same monitor with the BAC risen into the danger tier.\<close>

definition warned_in_danger :: monitor where
  "warned_in_danger = after_warning\<lparr>current_bac := 0.09\<rparr>"

text \<open>A fresh monitor after \<open>set_alert_cooldown(60)\<close>.\<close>

definition cooldown_sixty :: monitor where
  "cooldown_sixty = set_alert_cooldown 60 fresh_monitor"

section \<open>Properties of the calculator\<close>

subsection \<open>Helper lemmas\<close>

lemma total_alcohol_loop_sum:
  "total_alcohol_loop acc ds = acc + sum_list (map alcohol_grams ds)"
  by (induction ds arbitrary: acc) simp_all

lemma lower_male: "lower ''male'' = ''male''"
  by (simp add: lower_def lower_char_def)

lemma lower_female: "lower ''female'' = ''female''"
  by (simp add: lower_def lower_char_def)

lemma spec_total_grams_loop: "total_alcohol_loop 0 ds = spec_total_grams ds"
  by (simp add: total_alcohol_loop_sum spec_total_grams_def alcohol_grams_def[abs_def])

lemma widmark_factor_pos:
  "0 < (if lower g = ''male'' then male_widmark_factor else female_widmark_factor)"
  by (simp add: male_widmark_factor_def female_widmark_factor_def)

text \<open>With a positive weight the division is defined and the call returns.\<close>

lemma calculate_bac_widmark_peak:
  assumes "0 < w"
  shows "calculate_bac_widmark w g ds t =
     Inr (max 0 (if t \<le> 0.5 then peak_bac_of w g ds * (t / 0.5)
                 else peak_bac_of w g ds - metabolism_rate * (t - 0.5)))"
  using assms widmark_factor_pos[of g]
  by (simp add: calculate_bac_widmark_def Let_def peak_bac_of_def)

lemma peak_bac_of_spec:
  "sex = ''male'' \<or> sex = ''female'' \<Longrightarrow> peak_bac_of w sex ds = spec_peak_bac w sex ds"
  by (auto simp: peak_bac_of_def spec_peak_bac_def spec_ratio_def spec_total_grams_loop
      lower_male lower_female male_widmark_factor_def female_widmark_factor_def)

lemma one_beer_peak:
  "peak_bac_of 133 ''female'' one_beer = spec_peak_bac 133 ''female'' one_beer"
  by (simp add: peak_bac_of_spec)

lemma one_beer_half_hour:
  "calculate_bac_widmark 133 ''female'' one_beer 0.5 =
     Inr (max 0 (spec_peak_bac 133 ''female'' one_beer))"
  by (simp add: calculate_bac_widmark_peak one_beer_peak)

lemma one_beer_peak_bounds:
  "0.0421 < spec_peak_bac 133 ''female'' one_beer \<and>
   spec_peak_bac 133 ''female'' one_beer < 0.0423"
  by (simp add: spec_peak_bac_def spec_ratio_def spec_total_grams_def one_beer_def)

lemma one_beer_half_hour_peak:
  "calculate_bac_widmark 133 ''female'' one_beer 0.5 =
     Inr (spec_peak_bac 133 ''female'' one_beer)"
proof -
  have "max 0 (spec_peak_bac 133 ''female'' one_beer) = spec_peak_bac 133 ''female'' one_beer"
    using one_beer_peak_bounds by simp
  then show ?thesis
    using one_beer_half_hour by simp
qed

subsection \<open>The Widmark estimator\<close>

text \<open>
  C1: for a profile with positive weight and sex male or female, any drink list and any
  elapsed time of at least zero hours, \<open>calculate_bac_widmark\<close> returns the two-phase
  value of the specification: the linear ramp \<open>peakBac * (elapsedHours / 0.5)\<close> up to
  half an hour, \<open>peakBac - 0.015 * (elapsedHours - 0.5)\<close> after it, clamped below at
  zero, with \<open>peakBac = totalGrams / (ratio * weightLbs * 453.592) * 100\<close>.
\<close>

theorem widmark_two_phase_formula:
  assumes "0 < weightLbs" and "sex = ''male'' \<or> sex = ''female''" and "0 \<le> elapsedHours"
  shows "calculate_bac_widmark weightLbs sex ds elapsedHours =
           Inr (spec_widmark weightLbs sex ds elapsedHours)"
  by (simp add: calculate_bac_widmark_peak[OF assms(1)] peak_bac_of_spec[OF assms(2)]
      spec_widmark_def metabolism_rate_def)

theorem widmark_two_phase_formula_witness:
  "(0::real) < 160 \<and> (''male'' = ''male'' \<or> ''male'' = ''female'') \<and> (0::real) \<le> 1.5 \<and>
   calculate_bac_widmark 160 ''male'' one_beer 1.5 =
     Inr (spec_widmark 160 ''male'' one_beer 1.5)"
  using widmark_two_phase_formula[of 160 "''male''" "1.5" one_beer]
  by simp

text \<open>
  C2, as stated: for the 133 lb female profile and one 12 oz, 5 percent drink, the
  estimator at half an hour would return about 0.026. It does not: the value returned
  is further than 0.016 away from 0.026.
\<close>

theorem scenario_one_is_not_0026:
  "\<not> isl (calculate_bac_widmark 133 ''female'' one_beer 0.5) \<and>
   \<not> \<bar>projr (calculate_bac_widmark 133 ''female'' one_beer 0.5) - 0.026\<bar> \<le> 0.016"
  using one_beer_half_hour_peak one_beer_peak_bounds by simp

text \<open>
  C2, amended: for the 133 lb female profile and one 12 oz, 5 percent drink, the
  estimator at half an hour returns the peak BAC, which lies between 0.0421 and 0.0423
  (0.042 to three decimals).
\<close>

theorem scenario_one_is_0042:
  "calculate_bac_widmark 133 ''female'' one_beer 0.5 =
     Inr (spec_peak_bac 133 ''female'' one_beer) \<and>
   0.0421 < spec_peak_bac 133 ''female'' one_beer \<and>
   spec_peak_bac 133 ''female'' one_beer < 0.0423"
  using one_beer_half_hour_peak one_beer_peak_bounds by simp

text \<open>
  C4: for a profile with positive weight, any sex string, any drink list and any real
  elapsed time, negative ones included, \<open>calculate_bac_widmark\<close> returns, and the BAC
  it returns is at least zero.
\<close>

theorem widmark_never_negative:
  assumes "0 < w"
  shows "\<exists>b. calculate_bac_widmark w g ds t = Inr b \<and> 0 \<le> b"
  by (simp add: calculate_bac_widmark_peak[OF assms])

theorem widmark_never_negative_witness:
  "(0::real) < 133 \<and>
   (\<exists>b. calculate_bac_widmark 133 ''female'' one_beer (- 2) = Inr b \<and> 0 \<le> b)"
  using widmark_never_negative[of 133 "''female''" one_beer "- 2"]
  by simp

text \<open>
  C5, as stated: with the profile and the drink list fixed, the estimator would be
  strictly increasing on the interval from 0 to 0.5 hours. With the empty drink list it
  is not: the BAC is 0 at 0 hours and 0 at 0.5 hours.
\<close>

theorem widmark_empty_list_not_increasing:
  "calculate_bac_widmark 150 ''male'' no_drinks 0 = Inr 0 \<and>
   calculate_bac_widmark 150 ''male'' no_drinks 0.5 = Inr 0"
  by (simp add: calculate_bac_widmark_peak peak_bac_of_def no_drinks_def)

lemma total_alcohol_nonneg:
  assumes "\<forall>d\<in>set ds. 0 \<le> volume_oz d \<and> 0 \<le> alcohol_percent d"
  shows "0 \<le> sum_list (map alcohol_grams ds)"
  using assms by (intro sum_list_nonneg) (auto simp: alcohol_grams_def)

lemma peak_bac_of_nonneg:
  assumes "0 < w" and "\<forall>d\<in>set ds. 0 \<le> volume_oz d \<and> 0 \<le> alcohol_percent d"
  shows "0 \<le> peak_bac_of w g ds"
  using total_alcohol_nonneg[OF assms(2)] assms(1) widmark_factor_pos[of g]
  by (simp add: peak_bac_of_def total_alcohol_loop_sum)

lemma widmark_endpoints:
  assumes "0 < w" and "\<forall>d\<in>set ds. 0 \<le> volume_oz d \<and> 0 \<le> alcohol_percent d"
  shows "calculate_bac_widmark w g ds 0 = Inr 0 \<and>
         calculate_bac_widmark w g ds 0.5 = Inr (peak_bac_of w g ds)"
  using peak_bac_of_nonneg[OF assms]
  by (simp add: calculate_bac_widmark_peak[OF assms(1)])

text \<open>
  C5, amended: with a profile of positive weight and a drink list (the empty one
  included) whose drinks have no negative volume or percentage, the estimator follows
  the two-phase curve without ever going below zero: it is 0 at 0 hours and the peak
  BAC at 0.5 hours, it does not decrease in the elapsed hours on the interval from 0
  to 0.5 (\<open>t1 \<le> t2\<close> there gives \<open>b1 \<le> b2\<close>), and from 0.5 hours on it does not
  increase and stays at least 0 (\<open>0.5 \<le> t3 \<le> t4\<close> gives \<open>0 \<le> b4 \<le> b3\<close>), so that
  once it is clamped at 0 it stays 0.
\<close>

theorem widmark_rises_then_falls:
  assumes "0 < w" and "\<forall>d\<in>set ds. 0 \<le> volume_oz d \<and> 0 \<le> alcohol_percent d"
    and "0 \<le> t1" and "t1 \<le> t2" and "t2 \<le> 0.5" and "0.5 \<le> t3" and "t3 \<le> t4"
  shows "\<exists>b1 b2 b3 b4.
           calculate_bac_widmark w g ds t1 = Inr b1 \<and>
           calculate_bac_widmark w g ds t2 = Inr b2 \<and>
           calculate_bac_widmark w g ds t3 = Inr b3 \<and>
           calculate_bac_widmark w g ds t4 = Inr b4 \<and>
           0 \<le> b1 \<and> b1 \<le> b2 \<and> b4 \<le> b3 \<and> 0 \<le> b4 \<and>
           calculate_bac_widmark w g ds 0 = Inr 0 \<and>
           calculate_bac_widmark w g ds 0.5 = Inr (peak_bac_of w g ds)"
proof -
  let ?p = "peak_bac_of w g ds"
  let ?f = "\<lambda>t. max 0 (if t \<le> 0.5 then ?p * (t / 0.5)
                       else ?p - metabolism_rate * (t - 0.5))"
  have p: "0 \<le> ?p"
    using peak_bac_of_nonneg[OF assms(1,2)] .
  have up: "?p * (t1 / 0.5) \<le> ?p * (t2 / 0.5)"
    using p assms(4) by (intro mult_left_mono) simp_all
  have rise: "?f t1 \<le> ?f t2"
    using up assms(4,5) by (simp add: max_def)
  have fall: "?f t4 \<le> ?f t3"
  proof (cases "t3 = t4")
    case True
    then show ?thesis by simp
  next
    case False
    then have late: "0.5 < t4"
      using assms(6,7) by simp
    show ?thesis
    proof (cases "t3 \<le> 0.5")
      case True
      then have "t3 = 0.5"
        using assms(6) by simp
      then show ?thesis
        using late p by (simp add: metabolism_rate_def max_def)
    next
      case False
      then show ?thesis
        using late assms(7) by (simp add: metabolism_rate_def max_def)
    qed
  qed
  have "0 \<le> ?f t1" and "0 \<le> ?f t4"
    by simp_all
  then show ?thesis
    using rise fall widmark_endpoints[OF assms(1,2), of g]
    by (simp add: calculate_bac_widmark_peak[OF assms(1)])
qed

theorem widmark_rises_then_falls_witness:
  "(0::real) < 133 \<and>
   list_all (\<lambda>d. 0 \<le> volume_oz d \<and> 0 \<le> alcohol_percent d) one_beer \<and>
   (0::real) \<le> 0 \<and> (0::real) \<le> 0.25 \<and> (0.25::real) \<le> 0.5 \<and> (0.5::real) \<le> 0.5 \<and>
   (0.5::real) \<le> 1 \<and>
   (\<exists>b1 b2 b3 b4.
      calculate_bac_widmark 133 ''female'' one_beer 0 = Inr b1 \<and>
      calculate_bac_widmark 133 ''female'' one_beer 0.25 = Inr b2 \<and>
      calculate_bac_widmark 133 ''female'' one_beer 0.5 = Inr b3 \<and>
      calculate_bac_widmark 133 ''female'' one_beer 1 = Inr b4 \<and>
      0 \<le> b1 \<and> b1 \<le> b2 \<and> b4 \<le> b3 \<and> 0 \<le> b4 \<and>
      calculate_bac_widmark 133 ''female'' one_beer 0 = Inr 0 \<and>
      calculate_bac_widmark 133 ''female'' one_beer 0.5 =
        Inr (peak_bac_of 133 ''female'' one_beer))"
  using widmark_rises_then_falls[of 133 one_beer 0 "0.25" "0.5" 1 "''female''"]
  by (simp add: one_beer_def)

subsection \<open>Unit conversion, effect tiers, drink resolution\<close>

text \<open>
  C7: the database entries for beer, liquor and wine are 12 oz at 5 percent, 1.5 oz at
  40 percent and 5 oz at 12 percent, and the conversion of the estimator's loop maps
  each of them to 14.0 grams of ethanol within 0.1 grams; so does the loop run on the
  single beer.
\<close>

theorem standard_drinks_are_14_grams:
  "drink_database ''beer'' = Some \<lparr>alcohol_percent = 5.0, volume_oz = 12.0\<rparr> \<and>
   drink_database ''liquor'' = Some \<lparr>alcohol_percent = 40.0, volume_oz = 1.5\<rparr> \<and>
   drink_database ''wine'' = Some \<lparr>alcohol_percent = 12.0, volume_oz = 5.0\<rparr> \<and>
   \<bar>alcohol_grams \<lparr>alcohol_percent = 5.0, volume_oz = 12.0\<rparr> - 14.0\<bar> \<le> 0.1 \<and>
   \<bar>alcohol_grams \<lparr>alcohol_percent = 40.0, volume_oz = 1.5\<rparr> - 14.0\<bar> \<le> 0.1 \<and>
   \<bar>alcohol_grams \<lparr>alcohol_percent = 12.0, volume_oz = 5.0\<rparr> - 14.0\<bar> \<le> 0.1 \<and>
   \<bar>total_alcohol_loop 0 [\<lparr>alcohol_percent = 5.0, volume_oz = 12.0\<rparr>] - 14.0\<bar> \<le> 0.1"
  by (simp add: alcohol_grams_def drink_database_def)

text \<open>
  C8: \<open>get_bac_effects\<close> classifies by half-open intervals: the tier is Sober exactly
  below 0.02, Mild Impairment exactly from 0.02 up to but not including 0.05, Moderate
  Impairment from 0.05 to below 0.08, High Impairment from 0.08 to below 0.15, and
  Severe Impairment from 0.15 on. In particular 0.019999, 0.02, 0.079999 and 0.08 are
  Sober, Mild, Moderate and High.
\<close>

theorem effect_tiers_half_open:
  "(level (get_bac_effects b) = ''Sober'' \<longleftrightarrow> b < 0.02) \<and>
   (level (get_bac_effects b) = ''Mild Impairment'' \<longleftrightarrow> 0.02 \<le> b \<and> b < 0.05) \<and>
   (level (get_bac_effects b) = ''Moderate Impairment'' \<longleftrightarrow> 0.05 \<le> b \<and> b < 0.08) \<and>
   (level (get_bac_effects b) = ''High Impairment'' \<longleftrightarrow> 0.08 \<le> b \<and> b < 0.15) \<and>
   (level (get_bac_effects b) = ''Severe Impairment'' \<longleftrightarrow> 0.15 \<le> b) \<and>
   level (get_bac_effects 0.019999) = ''Sober'' \<and>
   level (get_bac_effects 0.02) = ''Mild Impairment'' \<and>
   level (get_bac_effects 0.079999) = ''Moderate Impairment'' \<and>
   level (get_bac_effects 0.08) = ''High Impairment''"
  by (simp add: get_bac_effects_def)

lemma drink_database_unknown:
  "t \<notin> {''beer'', ''wine'', ''liquor'', ''cocktail''} \<Longrightarrow> drink_database t = None"
  by (simp add: drink_database_def)

text \<open>
  C9: \<open>add_drink\<close> returns a drink for every type string, so no type is an error. For
  a type outside the database and no overrides the drink is the default of 5 percent
  and 12 oz. An explicit volume override (a volume is greater than 0) is the recorded
  volume, and an explicit percentage override (a percentage is greater than 0 and at
  most 100) is the recorded percentage, for a known or an unknown type and whatever
  the other argument is.
\<close>

theorem add_drink_defaults_and_overrides:
  "(t \<notin> {''beer'', ''wine'', ''liquor'', ''cocktail''} \<longrightarrow>
      add_drink t None None = \<lparr>alcohol_percent = 5.0, volume_oz = 12.0\<rparr>) \<and>
   (0 < v \<longrightarrow> volume_oz (add_drink t (Some v) p) = v) \<and>
   (0 < a \<and> a \<le> 100 \<longrightarrow> alcohol_percent (add_drink t q (Some a)) = a)"
  by (auto simp: add_drink_def Let_def drink_database_unknown split: option.splits)

theorem add_drink_defaults_and_overrides_witness:
  "(''mead'' \<notin> {''beer'', ''wine'', ''liquor'', ''cocktail''} \<and>
      add_drink ''mead'' None None = \<lparr>alcohol_percent = 5.0, volume_oz = 12.0\<rparr>) \<and>
   ((0::real) < 16 \<and> volume_oz (add_drink ''mead'' (Some 16) None) = 16) \<and>
   ((0::real) < 7 \<and> (7::real) \<le> 100 \<and>
      alcohol_percent (add_drink ''mead'' (Some 16) (Some 7)) = 7) \<and>
   ((0::real) < 6 \<and> volume_oz (add_drink ''wine'' (Some 6) None) = 6) \<and>
   ((0::real) < 13 \<and> (13::real) \<le> 100 \<and>
      alcohol_percent (add_drink ''wine'' None (Some 13)) = 13)"
  using add_drink_defaults_and_overrides[of "''mead''" 16 None 7 "Some 16"]
    add_drink_defaults_and_overrides[of "''wine''" 6 None 13 None]
  by simp

section \<open>Properties of the monitor\<close>

subsection \<open>Alert throttling\<close>

lemma current_alert_level_of_tiers:
  "current_alert_level_of b =
     (if 0.15 \<le> b then Some Critical else if 0.08 \<le> b then Some Danger
      else if 0.05 \<le> b then Some Warning else None)"
  by (simp add: current_alert_level_of_def alert_thresholds_def)

lemma danger_tier:
  "0.08 \<le> b \<Longrightarrow> b < 0.15 \<Longrightarrow> current_alert_level_of b = Some Danger"
  by (simp add: current_alert_level_of_tiers)

lemma check_alerts_fires_iff:
  "check_alerts now s =
     (if current_alert_level_of (current_bac s) \<noteq> None \<and>
         (current_alert_level_of (current_bac s) \<noteq> last_alert_level s \<or>
          last_alert_time s = None \<or>
          now - the (last_alert_time s) > real_of_int (alert_cooldown s))
      then (Some (send_alert_of (the (current_alert_level_of (current_bac s))) (current_bac s)
                    (get_bac_effects (current_bac s))),
            s\<lparr>last_alert_level := current_alert_level_of (current_bac s),
              last_alert_time := Some now\<rparr>)
      else (None, s))"
  by (auto simp: check_alerts_def Let_def should_alert_of_def)

lemma two_danger_ticks:
  assumes "alert_cooldown s = 30" and "0.08 \<le> b1" and "b1 < 0.15"
    and "0.08 \<le> b2" and "b2 < 0.15" and "last_alert_level s \<noteq> Some Danger"
  shows "fst (check_alerts t (s\<lparr>current_bac := b1\<rparr>)) \<noteq> None \<and>
         check_alerts (t + 10)
           ((snd (check_alerts t (s\<lparr>current_bac := b1\<rparr>)))\<lparr>current_bac := b2\<rparr>) =
         (None, (snd (check_alerts t (s\<lparr>current_bac := b1\<rparr>)))\<lparr>current_bac := b2\<rparr>)"
  using assms
  by (simp add: check_alerts_fires_iff danger_tier)

lemma warning_to_danger:
  assumes "last_alert_level s = Some Warning" and "0.08 \<le> current_bac s"
    and "current_bac s < 0.15"
  shows "fst (check_alerts now s) \<noteq> None \<and>
         snd (check_alerts now s) =
           s\<lparr>last_alert_level := Some Danger, last_alert_time := Some now\<rparr>"
  using assms
  by (simp add: check_alerts_fires_iff danger_tier)

text \<open>
  C3, as stated: the throttle step would fire, and update the alert state, whenever the
  tier computed from the BAC differs from the last tier, a transition to no tier
  included. It does not: after a warning alert, with the BAC back at 0, the computed
  tier (none) differs from the last tier (warning), and the step sends nothing and
  leaves the state as it is.
\<close>

theorem drop_to_no_tier_does_not_fire:
  "current_alert_level_of (current_bac after_warning) \<noteq> last_alert_level after_warning \<and>
   check_alerts 100 after_warning = (None, after_warning)"
  by (simp add: after_warning_def fresh_monitor_def init_monitor_def check_alerts_def Let_def
      current_alert_level_of_tiers should_alert_of_def)

text \<open>
  C3, amended: the throttle step fires an alert, and sets the last tier to the current
  tier and the last firing time to now, exactly when the current tier (critical from
  0.15, danger from 0.08, warning from 0.05, else none) is not none and either differs
  from the last tier, or no firing time is recorded, or more than the cooldown has
  passed since the last firing; otherwise it sends nothing and leaves the whole state
  unchanged, also when the tier has dropped to none. With a cooldown of 30 seconds, of
  two ticks 10 seconds apart that both land in the danger tier, the first of which
  enters that tier, the first fires and the second is suppressed; and a step that finds
  the last tier warning and the current tier danger fires whatever the times are.
\<close>

theorem alert_throttle_step:
  "check_alerts now s =
     (if current_alert_level_of (current_bac s) \<noteq> None \<and>
         (current_alert_level_of (current_bac s) \<noteq> last_alert_level s \<or>
          last_alert_time s = None \<or>
          now - the (last_alert_time s) > real_of_int (alert_cooldown s))
      then (Some (send_alert_of (the (current_alert_level_of (current_bac s))) (current_bac s)
                    (get_bac_effects (current_bac s))),
            s\<lparr>last_alert_level := current_alert_level_of (current_bac s),
              last_alert_time := Some now\<rparr>)
      else (None, s)) \<and>
   current_alert_level_of b =
     (if 0.15 \<le> b then Some Critical else if 0.08 \<le> b then Some Danger
      else if 0.05 \<le> b then Some Warning else None) \<and>
   (alert_cooldown s = 30 \<and> 0.08 \<le> b1 \<and> b1 < 0.15 \<and> 0.08 \<le> b2 \<and> b2 < 0.15 \<and>
    last_alert_level s \<noteq> Some Danger \<longrightarrow>
      fst (check_alerts t (s\<lparr>current_bac := b1\<rparr>)) \<noteq> None \<and>
      check_alerts (t + 10)
        ((snd (check_alerts t (s\<lparr>current_bac := b1\<rparr>)))\<lparr>current_bac := b2\<rparr>) =
      (None, (snd (check_alerts t (s\<lparr>current_bac := b1\<rparr>)))\<lparr>current_bac := b2\<rparr>)) \<and>
   (last_alert_level s = Some Warning \<and> 0.08 \<le> current_bac s \<and> current_bac s < 0.15 \<longrightarrow>
      fst (check_alerts now s) \<noteq> None \<and>
      snd (check_alerts now s) =
        s\<lparr>last_alert_level := Some Danger, last_alert_time := Some now\<rparr>)"
  using check_alerts_fires_iff[of now s] current_alert_level_of_tiers[of b]
    two_danger_ticks[of s b1 b2 t] warning_to_danger[of s now]
  by blast

theorem alert_throttle_step_witness:
  "(alert_cooldown fresh_monitor = 30 \<and> (0.08::real) \<le> 0.09 \<and> (0.09::real) < 0.15 \<and>
    (0.08::real) \<le> 0.1 \<and> (0.1::real) < 0.15 \<and>
    last_alert_level fresh_monitor \<noteq> Some Danger) \<and>
   (fst (check_alerts 5 (fresh_monitor\<lparr>current_bac := 0.09\<rparr>)) \<noteq> None \<and>
    check_alerts (5 + 10)
      ((snd (check_alerts 5 (fresh_monitor\<lparr>current_bac := 0.09\<rparr>)))\<lparr>current_bac := 0.1\<rparr>) =
    (None,
     (snd (check_alerts 5 (fresh_monitor\<lparr>current_bac := 0.09\<rparr>)))\<lparr>current_bac := 0.1\<rparr>)) \<and>
   (last_alert_level warned_in_danger = Some Warning \<and>
    0.08 \<le> current_bac warned_in_danger \<and> current_bac warned_in_danger < 0.15) \<and>
   (fst (check_alerts 1 warned_in_danger) \<noteq> None \<and>
    snd (check_alerts 1 warned_in_danger) =
      warned_in_danger\<lparr>last_alert_level := Some Danger, last_alert_time := Some 1\<rparr>)"
proof -
  have h1: "alert_cooldown fresh_monitor = 30 \<and> (0.08::real) \<le> 0.09 \<and> (0.09::real) < 0.15 \<and>
    (0.08::real) \<le> 0.1 \<and> (0.1::real) < 0.15 \<and>
    last_alert_level fresh_monitor \<noteq> Some Danger"
    by (simp add: fresh_monitor_def init_monitor_def)
  have h2: "last_alert_level warned_in_danger = Some Warning \<and>
    0.08 \<le> current_bac warned_in_danger \<and> current_bac warned_in_danger < 0.15"
    by (simp add: warned_in_danger_def after_warning_def fresh_monitor_def init_monitor_def)
  show ?thesis
    using h1 h2 alert_throttle_step[of 5 fresh_monitor 0 "0.09" "0.1" 5]
      alert_throttle_step[of 1 warned_in_danger 0 "0.09" "0.1" 5]
    by blast
qed

subsection \<open>Reset and the manual alert check\<close>

text \<open>
  C6, as stated: \<open>reset_session\<close> would restore the cooldown to its initial value with
  the rest of the alert state. It does not: after \<open>set_alert_cooldown(60)\<close> and a
  reset the cooldown is 60, and the initial value is 30.
\<close>

theorem reset_keeps_cooldown:
  "alert_cooldown (reset_session cooldown_sixty) = 60 \<and>
   alert_cooldown fresh_monitor = 30"
  by (simp add: reset_session_def cooldown_sixty_def set_alert_cooldown_def
      fresh_monitor_def init_monitor_def)

text \<open>
  C6, amended: for every session state, \<open>reset_session\<close> empties the drink log and
  both histories, unsets the first and last drink times, sets the current BAC to 0.0
  and unsets the last tier and the last firing time; it leaves the cooldown, the
  profile (weight and sex), the running flag, the sensor simulator and the queue
  unchanged; a status taken right after the reset reports drink count 0, BAC 0.0 and
  tier Sober.
\<close>

theorem reset_session_effect:
  "drinks (reset_session s) = [] \<and>
   first_drink_time (reset_session s) = None \<and>
   last_drink_time (reset_session s) = None \<and>
   bac_history (reset_session s) = [] \<and>
   sensor_history (reset_session s) = [] \<and>
   current_bac (reset_session s) = 0.0 \<and>
   last_alert_level (reset_session s) = None \<and>
   last_alert_time (reset_session s) = None \<and>
   alert_cooldown (reset_session s) = alert_cooldown s \<and>
   weight_lbs (reset_session s) = weight_lbs s \<and>
   gender (reset_session s) = gender s \<and>
   is_monitoring (reset_session s) = is_monitoring s \<and>
   sensor_simulator (reset_session s) = sensor_simulator s \<and>
   data_queue (reset_session s) = data_queue s \<and>
   drinks_count (get_current_status now (reset_session s)) = 0 \<and>
   status.bac (get_current_status now (reset_session s)) = 0.0 \<and>
   level (status.effects (get_current_status now (reset_session s))) = ''Sober''"
  by (simp add: reset_session_def get_current_status_def Let_def get_bac_effects_def)

text \<open>
  C10: \<open>check_alerts_manually\<close> leaves every field of the session state unchanged, the
  last tier and the last firing time among them, so the alert evaluation of the next
  tick gives the same result, alert and state, as it would without the manual check.
\<close>

theorem manual_check_changes_nothing:
  "snd (check_alerts_manually s) = s \<and>
   check_alerts now (snd (check_alerts_manually s)) = check_alerts now s"
  by (simp add: check_alerts_manually_def Let_def)

end
